theory Spec2Isabelle
  imports Main "HOL-Library.Word" "HOL-Library.Monad_Syntax"
begin

unbundle bit_operations_syntax

section \<open>Data model of package webhook\<close>

text \<open>
  Go's \<^verbatim>\<open>int\<close> is a two's-complement machine integer; the model takes the 64-bit
  targets (\<^verbatim>\<open>strconv.IntSize = 64\<close>).  Comparisons of the source are signed, so they
  are written on \<open>sint\<close>.  A Go \<^verbatim>\<open>string\<close> is a sequence of bytes and \<^verbatim>\<open>len\<close>
  counts bytes; \<open>string\<close> (a list of 8-bit \<open>char\<close>) and \<open>length\<close> are the same.

  A slice value is the header Go keeps: the backing array, the length and the capacity.
  The arrays live in the store (below) and a header names its array by a number.  The
  package never reslices, so every slice begins at the first cell of its array.  Copying
  a struct copies the headers in it, not the arrays.
\<close>

type_synonym go_int = "64 word"

definition minDecimalRGBValue :: int where "minDecimalRGBValue = 0"
definition maxDecimalRGBValue :: int where "maxDecimalRGBValue = 16777215"
definition minRGBValue :: int where "minRGBValue = 0"
definition maxRGBValue :: int where "maxRGBValue = 255"

record Footer =
  Footer_Text :: string
  Footer_IconURL :: string
  Footer_ProxyIconURL :: string

record Image =
  Image_URL :: string
  Image_ProxyURL :: string
  Image_Height :: go_int
  Image_Width :: go_int

record Author =
  Author_Name :: string
  Author_URL :: string
  Author_IconURL :: string
  Author_ProxyIconURL :: string

record Thumbnail =
  Thumbnail_URL :: string
  Thumbnail_ProxyURL :: string
  Thumbnail_Height :: go_int
  Thumbnail_Width :: go_int

record Field =
  Field_Name :: string
  Field_Value :: string
  Field_Inline :: bool

record slice =
  slice_array :: nat
  slice_len :: nat
  slice_cap :: nat

record Embed =
  Embed_Title :: string
  Embed_Description :: string
  Embed_URL :: string
  Embed_Color :: go_int
  Embed_Timestamp :: string
  Embed_Footer :: Footer
  Embed_Image :: Image
  Embed_Thumbnail :: Thumbnail
  Embed_Author :: Author
  Embed_Fields :: slice

record Webhook =
  Webhook_Content :: string
  Webhook_Username :: string
  Webhook_AvatarURL :: string
  Webhook_Embeds :: slice

record RGB =
  RGB_R :: go_int
  RGB_G :: go_int
  RGB_B :: go_int

text \<open>The type set \<^verbatim>\<open>string | int | RGB\<close> of the constraint \<^verbatim>\<open>colorEmbedTypes\<close>.\<close>

datatype colorEmbedTypes = ColorString string | ColorInt go_int | ColorRGB RGB

text \<open>
  The zero values \<^verbatim>\<open>Footer{}\<close>, \<^verbatim>\<open>Image{}\<close>, ..., \<^verbatim>\<open>Webhook{}\<close>; the zero value of a
  slice is the nil slice, with no array, length 0 and capacity 0.
\<close>

definition nil_slice :: slice where
  "nil_slice = \<lparr>slice_array = 0, slice_len = 0, slice_cap = 0\<rparr>"

definition zero_Field :: Field where
  "zero_Field = \<lparr>Field_Name = [], Field_Value = [], Field_Inline = False\<rparr>"

definition zero_Footer :: Footer where
  "zero_Footer = \<lparr>Footer_Text = [], Footer_IconURL = [], Footer_ProxyIconURL = []\<rparr>"

definition zero_Image :: Image where
  "zero_Image = \<lparr>Image_URL = [], Image_ProxyURL = [], Image_Height = 0, Image_Width = 0\<rparr>"

definition zero_Author :: Author where
  "zero_Author = \<lparr>Author_Name = [], Author_URL = [], Author_IconURL = [],
     Author_ProxyIconURL = []\<rparr>"

definition zero_Thumbnail :: Thumbnail where
  "zero_Thumbnail = \<lparr>Thumbnail_URL = [], Thumbnail_ProxyURL = [], Thumbnail_Height = 0,
     Thumbnail_Width = 0\<rparr>"

definition zero_Embed :: Embed where
  "zero_Embed = \<lparr>Embed_Title = [], Embed_Description = [], Embed_URL = [], Embed_Color = 0,
     Embed_Timestamp = [], Embed_Footer = zero_Footer, Embed_Image = zero_Image,
     Embed_Thumbnail = zero_Thumbnail, Embed_Author = zero_Author, Embed_Fields = nil_slice\<rparr>"

definition zero_Webhook :: Webhook where
  "zero_Webhook = \<lparr>Webhook_Content = [], Webhook_Username = [], Webhook_AvatarURL = [],
     Webhook_Embeds = nil_slice\<rparr>"

section \<open>The store and the built-in append\<close>

text \<open>
  The store holds the backing arrays of the two slice types of the package, each array a
  function from the index to the cell, and the number of the next array to be allocated.
  How much capacity a new array gets is the runtime's choice (\<^verbatim>\<open>growslice\<close>, by element
  type, old capacity and needed length); the model takes the rule from the store and only
  makes sure that the new array is large enough, as the language requires.
\<close>

datatype elem_type = FieldT | EmbedT

record store =
  field_arrays :: "nat \<Rightarrow> nat \<Rightarrow> Field"
  embed_arrays :: "nat \<Rightarrow> nat \<Rightarrow> Embed"
  next_array :: nat
  growslice :: "elem_type \<Rightarrow> nat \<Rightarrow> nat \<Rightarrow> nat"

text \<open>The elements of a slice: the first \<^verbatim>\<open>len\<close> cells of its array.\<close>

definition elems :: "(nat \<Rightarrow> nat \<Rightarrow> 'a) \<Rightarrow> slice \<Rightarrow> 'a list" where
  "elems arrays s = map (arrays (slice_array s)) [0..<slice_len s]"

text \<open>
  \<^verbatim>\<open>append(s, xs...)\<close>.  When the capacity of \<open>s\<close> suffices, the new elements are
  written into the array of \<open>s\<close>, into the cells from \<^verbatim>\<open>len(s)\<close> on, and the result
  shares that array.  Otherwise a new array is allocated, the elements of \<open>s\<close> and the
  new ones are written to it, its other cells are zero, and the old array is left as it
  was.  The result is the arrays, the next free array number and the new header.
\<close>

definition go_append ::
  "(nat \<Rightarrow> nat \<Rightarrow> nat) \<Rightarrow> 'a \<Rightarrow> (nat \<Rightarrow> nat \<Rightarrow> 'a) \<Rightarrow> nat \<Rightarrow> slice \<Rightarrow> 'a list
     \<Rightarrow> (nat \<Rightarrow> nat \<Rightarrow> 'a) \<times> nat \<times> slice" where
  "go_append grow zero arrays next s xs =
     (let n = slice_len s + length xs in
      if n \<le> slice_cap s
      then (arrays(slice_array s :=
              (\<lambda>i. if slice_len s \<le> i \<and> i < n then xs ! (i - slice_len s)
                   else arrays (slice_array s) i)),
            next,
            s\<lparr>slice_len := n\<rparr>)
      else (arrays(next :=
              (\<lambda>i. if i < slice_len s then arrays (slice_array s) i
                   else if i < n then xs ! (i - slice_len s)
                   else zero)),
            Suc next,
            \<lparr>slice_array = next, slice_len = n,
             slice_cap = max n (grow (slice_cap s) n)\<rparr>))"

section \<open>Errors\<close>

text \<open>
  Every error the package makes comes from \<^verbatim>\<open>fmt.Errorf(format, args...)\<close>; it is kept
  as the format string with its arguments, unrendered.  \<open>NumError\<close> is
  \<^verbatim>\<open>*strconv.NumError{Func, Num, Err}\<close>, \<open>External\<close> an error value of another library
  (the transport's), known only by its description.
\<close>

datatype strconv_err = ErrSyntax | ErrRange

datatype go_error =
    Errorf string "fmt_arg list"
  | NumError string string strconv_err
  | External string
and fmt_arg = ArgInt int | ArgErr go_error

section \<open>Library functions the package calls\<close>

subsection \<open>strconv.ParseInt\<close>

text \<open>
  \<^verbatim>\<open>strconv.ParseInt(s, base, 0)\<close> of the Go standard library, for a base from 2 to 36
  (the package calls it with 16) and \<^verbatim>\<open>bitSize\<close> 0, which stands for \<^verbatim>\<open>IntSize\<close>.
  The string may begin with a sign, \<^verbatim>\<open>+\<close> or \<^verbatim>\<open>-\<close>; the rest goes to
  \<^verbatim>\<open>ParseUint\<close>, whose loop takes one byte at a time: a decimal digit or a letter of
  either case (\<^verbatim>\<open>lower(c) = c | 0x20\<close> lies in \<^verbatim>\<open>'a'..'z'\<close> exactly for the letters),
  a syntax error for any other byte and for a digit not below the base, a range error when
  the value leaves 64 bits.  \<open>ParseUint\<close> returns the value and the \<^verbatim>\<open>Err\<close> field of
  its \<^verbatim>\<open>NumError\<close>; \<open>ParseInt\<close> makes the \<^verbatim>\<open>NumError\<close> with its own name and the
  whole input.
\<close>

definition digit_of :: "char \<Rightarrow> nat option" where
  "digit_of c =
     (let b = (of_char c :: nat) in
      if 48 \<le> b \<and> b \<le> 57 then Some (b - 48)
      else if 97 \<le> b \<and> b \<le> 122 then Some (b - 97 + 10)
      else if 65 \<le> b \<and> b \<le> 90 then Some (b - 65 + 10)
      else None)"

fun ParseUint_loop :: "nat \<Rightarrow> nat \<Rightarrow> string \<Rightarrow> nat \<Rightarrow> nat \<times> strconv_err option" where
  "ParseUint_loop base maxVal [] n = (n, None)"
| "ParseUint_loop base maxVal (c # cs) n =
     (case digit_of c of
        None \<Rightarrow> (0, Some ErrSyntax)
      | Some d \<Rightarrow>
          if d \<ge> base then (0, Some ErrSyntax)
          else if n \<ge> (2 ^ 64 - 1) div base + 1 then (maxVal, Some ErrRange)
          else if n * base + d \<ge> 2 ^ 64 \<or> n * base + d > maxVal then (maxVal, Some ErrRange)
          else ParseUint_loop base maxVal cs (n * base + d))"

definition ParseUint :: "string \<Rightarrow> nat \<Rightarrow> nat \<times> strconv_err option" where
  "ParseUint s base =
     (if s = [] then (0, Some ErrSyntax) else ParseUint_loop base (2 ^ 64 - 1) s 0)"

definition ParseInt :: "string \<Rightarrow> nat \<Rightarrow> go_int \<times> go_error option" where
  "ParseInt s base =
     (if s = [] then (0, Some (NumError ''ParseInt'' s ErrSyntax))
      else
        let neg = (hd s = CHR ''-'');
            s' = (if hd s = CHR ''+'' \<or> hd s = CHR ''-'' then tl s else s);
            (un, err) = ParseUint s' base;
            cutoff = (2 ^ 63 :: nat)
        in if err \<noteq> None \<and> err \<noteq> Some ErrRange
           then (0, Some (NumError ''ParseInt'' s ErrSyntax))
           else if \<not> neg \<and> un \<ge> cutoff
           then (word_of_nat (cutoff - 1), Some (NumError ''ParseInt'' s ErrRange))
           else if neg \<and> un > cutoff
           then (- word_of_nat cutoff, Some (NumError ''ParseInt'' s ErrRange))
           else (if neg then - word_of_nat un else word_of_nat un, None))"

subsection \<open>time.Parse with the layout time.RFC3339\<close>

text \<open>
  \<^verbatim>\<open>time.Parse(time.RFC3339, value)\<close> of the Go standard library, as far as its error
  result goes.  The layout is \<^verbatim>\<open>2006-01-02T15:04:05Z07:00\<close>; the parser walks it element by
  element: the literal bytes must match (\<open>skip\<close>), the year is four digits, month, day,
  minute and second are two digits (\<open>getnum\<close> with \<^verbatim>\<open>fixed\<close>), the hour element
  \<^verbatim>\<open>15\<close> is read by \<open>getnum\<close> without \<^verbatim>\<open>fixed\<close> and so is one digit or two, a
  fraction of the second after a period or a comma is read though the layout has none, the
  zone is \<^verbatim>\<open>Z\<close> or a signed \<^verbatim>\<open>hh:mm\<close>, nothing may follow, and the day must exist in
  its month.  \<open>None\<close> is a non-nil error.
\<close>

definition isDigit :: "string \<Rightarrow> nat \<Rightarrow> bool" where
  "isDigit s i =
     (if length s \<le> i then False
      else let c = (of_char (s ! i) :: nat) in 48 \<le> c \<and> c \<le> 57)"

definition digit_value :: "char \<Rightarrow> nat" where
  "digit_value c = of_char c - 48"

definition getnum :: "string \<Rightarrow> bool \<Rightarrow> (nat \<times> string) option" where
  "getnum s fixed =
     (if \<not> isDigit s 0 then None
      else if \<not> isDigit s 1 then
        (if fixed then None else Some (digit_value (s ! 0), drop 1 s))
      else Some (digit_value (s ! 0) * 10 + digit_value (s ! 1), drop 2 s))"

definition skip :: "string \<Rightarrow> char \<Rightarrow> string option" where
  "skip v p = (if length v = 0 \<or> v ! 0 \<noteq> p then None else Some (drop 1 v))"

definition check :: "bool \<Rightarrow> unit option" where
  "check b = (if b then Some () else None)"

definition parse_year :: "string \<Rightarrow> (nat \<times> string) option" where
  "parse_year v =
     (if length v < 4 \<or> \<not> isDigit v 0 then None
      else if isDigit v 1 \<and> isDigit v 2 \<and> isDigit v 3
      then Some (foldl (\<lambda>n c. 10 * n + digit_value c) 0 (take 4 v), drop 4 v)
      else None)"

definition commaOrPeriod :: "char \<Rightarrow> bool" where
  "commaOrPeriod c \<longleftrightarrow> c = CHR ''.'' \<or> c = CHR '',''"

definition skip_fraction :: "string \<Rightarrow> string" where
  "skip_fraction v =
     (if length v \<ge> 2 \<and> commaOrPeriod (v ! 0) \<and> isDigit v 1
      then dropWhile (\<lambda>c. isDigit [c] 0) (drop 2 v)
      else v)"

definition parse_zone :: "string \<Rightarrow> string option" where
  "parse_zone v =
     (if length v \<ge> 1 \<and> v ! 0 = CHR ''Z'' then Some (drop 1 v)
      else if length v < 6 then None
      else if v ! 3 \<noteq> CHR '':'' then None
      else do {
        (hr, _) \<leftarrow> getnum (take 2 (drop 1 v)) True;
        (mm, _) \<leftarrow> getnum (take 2 (drop 4 v)) True;
        check (\<not> hr > 24 \<and> \<not> mm > 60);
        check (v ! 0 = CHR ''+'' \<or> v ! 0 = CHR ''-'');
        Some (drop 6 v)
      })"

definition isLeap :: "nat \<Rightarrow> bool" where
  "isLeap year \<longleftrightarrow> year mod 4 = 0 \<and> (year mod 100 \<noteq> 0 \<or> year mod 400 = 0)"

definition daysIn :: "nat \<Rightarrow> nat \<Rightarrow> nat" where
  "daysIn m year =
     (if m = 2 \<and> isLeap year then 29
      else [31, 28, 31, 30, 31, 30, 31, 31, 30, 31, 30, 31] ! (m - 1))"

definition time_Parse_RFC3339 :: "string \<Rightarrow> unit option" where
  "time_Parse_RFC3339 v0 = do {
     (year, v) \<leftarrow> parse_year v0;
     v \<leftarrow> skip v CHR ''-'';
     (month, v) \<leftarrow> getnum v True;
     check (\<not> (month \<le> 0 \<or> 12 < month));
     v \<leftarrow> skip v CHR ''-'';
     (day, v) \<leftarrow> getnum v True;
     v \<leftarrow> skip v CHR ''T'';
     (hour, v) \<leftarrow> getnum v False;
     check (\<not> 24 \<le> hour);
     v \<leftarrow> skip v CHR '':'';
     (min, v) \<leftarrow> getnum v True;
     check (\<not> 60 \<le> min);
     v \<leftarrow> skip v CHR '':'';
     (sec, v) \<leftarrow> getnum v True;
     check (\<not> 60 \<le> sec);
     v \<leftarrow> parse_zone (skip_fraction v);
     check (length v = 0);
     check (\<not> (day < 1 \<or> day > daysIn month year))
   }"

subsection \<open>json.Marshal on the package's structs\<close>

text \<open>
  \<^verbatim>\<open>json.Marshal\<close> of the Go standard library on the struct types above, directed by
  their field tags.  The result is kept as a tree (the members of an object in the order
  of the struct's fields), not as text.  A field tagged \<^verbatim>\<open>omitempty\<close> is left out when
  its value is empty, and the library defines empty as: false, 0, a nil pointer or
  interface, and an array, slice, map or string of length zero.  A struct value is none of
  these, so the tag has no effect on the fields \<^verbatim>\<open>Footer\<close>, \<^verbatim>\<open>Image\<close>,
  \<^verbatim>\<open>Thumbnail\<close> and \<^verbatim>\<open>Author\<close> of \<^verbatim>\<open>Embed\<close> (\<open>omitempty_struct\<close>).  Marshalling
  these types has no error case.  The elements of a slice are read from the store.

  A string is encoded as valid UTF-8: the encoder walks the string with
  \<^verbatim>\<open>utf8.DecodeRuneInString\<close> and puts U+FFFD (the bytes EF BF BD) in the place of every
  byte that begins no well-formed encoding.  \<open>utf8_size\<close> is the number of bytes of the
  well-formed encoding at the head of a string, 0 when there is none: one byte below 80,
  two bytes from C2 to DF, three from E0 to EF, four from F0 to F4, the later bytes from
  80 to BF, with the narrower range of the second byte after E0, ED, F0 and F4 that keeps
  out overlong forms, surrogates and values above 10FFFF.  The escapes the encoder writes
  for quotes, control characters and HTML characters are a matter of the text, not of the
  string a reader gets back, and are not modelled.
\<close>

definition cont_byte :: "char \<Rightarrow> bool" where
  "cont_byte c \<longleftrightarrow> 128 \<le> (of_char c :: nat) \<and> (of_char c :: nat) \<le> 191"

definition second_byte :: "nat \<Rightarrow> char \<Rightarrow> bool" where
  "second_byte b c =
     (let lo = (if b = 224 then 160 else if b = 240 then 144 else 128);
          hi = (if b = 237 then 159 else if b = 244 then 143 else 191)
      in lo \<le> (of_char c :: nat) \<and> (of_char c :: nat) \<le> hi)"

fun utf8_size :: "string \<Rightarrow> nat" where
  "utf8_size [] = 0"
| "utf8_size (c # cs) =
     (let b = (of_char c :: nat) in
      if b < 128 then 1
      else if 194 \<le> b \<and> b \<le> 223 then
        (case cs of c1 # _ \<Rightarrow> if cont_byte c1 then 2 else 0 | _ \<Rightarrow> 0)
      else if 224 \<le> b \<and> b \<le> 239 then
        (case cs of c1 # c2 # _ \<Rightarrow> if second_byte b c1 \<and> cont_byte c2 then 3 else 0
         | _ \<Rightarrow> 0)
      else if 240 \<le> b \<and> b \<le> 244 then
        (case cs of
           c1 # c2 # c3 # _ \<Rightarrow>
             if second_byte b c1 \<and> cont_byte c2 \<and> cont_byte c3 then 4 else 0
         | _ \<Rightarrow> 0)
      else 0)"

fun valid_utf8 :: "string \<Rightarrow> string" where
  "valid_utf8 [] = []"
| "valid_utf8 (c # cs) =
     (if utf8_size (c # cs) = 0
      then [CHR 0xEF, CHR 0xBF, CHR 0xBD] @ valid_utf8 cs
      else take (utf8_size (c # cs)) (c # cs) @ valid_utf8 (drop (utf8_size (c # cs) - 1) cs))"

datatype json =
    JString string
  | JNumber int
  | JBool bool
  | JArray "json list"
  | JObject "(string \<times> json) list"

definition omitempty_string :: "string \<Rightarrow> string \<Rightarrow> (string \<times> json) list" where
  "omitempty_string key v = (if length v = 0 then [] else [(key, JString (valid_utf8 v))])"

definition omitempty_int :: "string \<Rightarrow> go_int \<Rightarrow> (string \<times> json) list" where
  "omitempty_int key v = (if v = 0 then [] else [(key, JNumber (sint v))])"

definition omitempty_bool :: "string \<Rightarrow> bool \<Rightarrow> (string \<times> json) list" where
  "omitempty_bool key v = (if \<not> v then [] else [(key, JBool v)])"

definition omitempty_slice :: "string \<Rightarrow> json list \<Rightarrow> (string \<times> json) list" where
  "omitempty_slice key vs = (if length vs = 0 then [] else [(key, JArray vs)])"

definition omitempty_struct :: "string \<Rightarrow> json \<Rightarrow> (string \<times> json) list" where
  "omitempty_struct key v = [(key, v)]"

definition marshal_Footer :: "Footer \<Rightarrow> json" where
  "marshal_Footer f = JObject
     (omitempty_string ''text'' (Footer_Text f) @
      omitempty_string ''icon_url'' (Footer_IconURL f) @
      omitempty_string ''proxy_icon_url'' (Footer_ProxyIconURL f))"

definition marshal_Image :: "Image \<Rightarrow> json" where
  "marshal_Image i = JObject
     (omitempty_string ''url'' (Image_URL i) @
      omitempty_string ''proxy_url'' (Image_ProxyURL i) @
      omitempty_int ''height'' (Image_Height i) @
      omitempty_int ''width'' (Image_Width i))"

definition marshal_Author :: "Author \<Rightarrow> json" where
  "marshal_Author a = JObject
     (omitempty_string ''name'' (Author_Name a) @
      omitempty_string ''url'' (Author_URL a) @
      omitempty_string ''icon_url'' (Author_IconURL a) @
      omitempty_string ''proxy_icon_url'' (Author_ProxyIconURL a))"

definition marshal_Thumbnail :: "Thumbnail \<Rightarrow> json" where
  "marshal_Thumbnail t = JObject
     (omitempty_string ''url'' (Thumbnail_URL t) @
      omitempty_string ''proxy_url'' (Thumbnail_ProxyURL t) @
      omitempty_int ''height'' (Thumbnail_Height t) @
      omitempty_int ''width'' (Thumbnail_Width t))"

definition marshal_Field :: "Field \<Rightarrow> json" where
  "marshal_Field f = JObject
     ([(''name'', JString (valid_utf8 (Field_Name f))),
       (''value'', JString (valid_utf8 (Field_Value f)))] @
      omitempty_bool ''inline'' (Field_Inline f))"

definition marshal_Embed :: "store \<Rightarrow> Embed \<Rightarrow> json" where
  "marshal_Embed st e = JObject
     (omitempty_string ''title'' (Embed_Title e) @
      omitempty_string ''description'' (Embed_Description e) @
      omitempty_string ''url'' (Embed_URL e) @
      omitempty_int ''color'' (Embed_Color e) @
      omitempty_string ''timestamp'' (Embed_Timestamp e) @
      omitempty_struct ''footer'' (marshal_Footer (Embed_Footer e)) @
      omitempty_struct ''image'' (marshal_Image (Embed_Image e)) @
      omitempty_struct ''thumbnail'' (marshal_Thumbnail (Embed_Thumbnail e)) @
      omitempty_struct ''author'' (marshal_Author (Embed_Author e)) @
      omitempty_slice ''fields'' (map marshal_Field (elems (field_arrays st) (Embed_Fields e))))"

definition marshal_Webhook :: "store \<Rightarrow> Webhook \<Rightarrow> json" where
  "marshal_Webhook st w = JObject
     (omitempty_string ''content'' (Webhook_Content w) @
      omitempty_string ''username'' (Webhook_Username w) @
      omitempty_string ''avatar_url'' (Webhook_AvatarURL w) @
      omitempty_slice ''embeds''
        (map (marshal_Embed st) (elems (embed_arrays st) (Webhook_Embeds w))))"

definition json_Marshal :: "store \<Rightarrow> Webhook \<Rightarrow> json \<times> go_error option" where
  "json_Marshal st w = (marshal_Webhook st w, None)"

subsection \<open>http.Post\<close>

text \<open>
  The transport is outside the package: \<^verbatim>\<open>http.Post(url, contentType, body)\<close> is a
  parameter of the model, the function from the request to what came back, either the
  transport's error or a response with its status code.
\<close>

record Response =
  Response_StatusCode :: go_int

type_synonym http_Post = "string \<Rightarrow> string \<Rightarrow> json \<Rightarrow> go_error + Response"

section \<open>The package's functions\<close>

text \<open>
  A Go function returning \<^verbatim>\<open>(T, error)\<close> is a function into \<open>T \<times> go_error option\<close>,
  with \<open>None\<close> for \<^verbatim>\<open>nil\<close>: the source returns a value beside every error.  The methods
  have pointer receivers and assign to the receiver's fields; each is the function from
  the receiver's value before the call to its value after it.  The three methods that
  call \<^verbatim>\<open>append\<close> also take the store and return it as the call leaves it; the other
  functions neither read nor write an array.  \<open>AddFields\<close> only reads its argument
  slice, which is given by its elements.  Two variables that hold copies of one embed hold
  the same header in \<open>Embed_Fields\<close>, and so does the cell of a message's embed array
  that \<open>AddEmbed\<close> wrote.
\<close>

definition AddEmbed :: "store \<Rightarrow> Webhook \<Rightarrow> Embed \<Rightarrow> store \<times> Webhook" where
  "AddEmbed st w emb =
     (let (arrays, next, s) =
        go_append (growslice st EmbedT) zero_Embed (embed_arrays st) (next_array st)
          (Webhook_Embeds w) [emb]
      in (st\<lparr>embed_arrays := arrays, next_array := next\<rparr>, w\<lparr>Webhook_Embeds := s\<rparr>))"

definition AddField :: "store \<Rightarrow> Embed \<Rightarrow> Field \<Rightarrow> store \<times> Embed" where
  "AddField st e fld =
     (let (arrays, next, s) =
        go_append (growslice st FieldT) zero_Field (field_arrays st) (next_array st)
          (Embed_Fields e) [fld]
      in (st\<lparr>field_arrays := arrays, next_array := next\<rparr>, e\<lparr>Embed_Fields := s\<rparr>))"

definition AddFields :: "store \<Rightarrow> Embed \<Rightarrow> Field list \<Rightarrow> store \<times> Embed" where
  "AddFields st e flds =
     (let (arrays, next, s) =
        go_append (growslice st FieldT) zero_Field (field_arrays st) (next_array st)
          (Embed_Fields e) flds
      in (st\<lparr>field_arrays := arrays, next_array := next\<rparr>, e\<lparr>Embed_Fields := s\<rparr>))"






definition isValidISO8601 :: "string \<Rightarrow> bool" where
  "isValidISO8601 timestamp = (time_Parse_RFC3339 timestamp \<noteq> None)"

definition SetTimestamp :: "Embed \<Rightarrow> string \<Rightarrow> Embed \<times> go_error option" where
  "SetTimestamp e timestamp =
     (if isValidISO8601 timestamp then (e\<lparr>Embed_Timestamp := timestamp\<rparr>, None)
      else (e, Some (Errorf ''timestamp is not ISO8601 timestamp'' [])))"

definition CreateWebhook :: "string \<Rightarrow> string \<Rightarrow> string \<Rightarrow> Webhook \<times> go_error option" where
  "CreateWebhook content username avatarURL =
     (if length content > 2000
      then (zero_Webhook,
            Some (Errorf
              ''the length of the content cannot exceed 2000 characters (your length: %d)''
              [ArgInt (int (length content))]))
      else (\<lparr>Webhook_Content = content, Webhook_Username = username,
              Webhook_AvatarURL = avatarURL, Webhook_Embeds = nil_slice\<rparr>, None))"

definition rgbToInt :: "RGB \<Rightarrow> go_int \<times> go_error option" where
  "rgbToInt rgb =
     (let err =
        (if sint (RGB_R rgb) > maxRGBValue \<or> sint (RGB_R rgb) < minRGBValue \<or>
            sint (RGB_G rgb) > maxRGBValue \<or> sint (RGB_G rgb) < minRGBValue \<or>
            sint (RGB_B rgb) > maxRGBValue \<or> sint (RGB_B rgb) < minRGBValue
         then Some (Errorf ''rgb color can only be from 0 to 255'' [])
         else None)
      in (push_bit 16 (RGB_R rgb) OR push_bit 8 (RGB_G rgb) OR RGB_B rgb, err))"

text \<open>
  \<open>hexToColorInt_parse\<close> is the part of \<^verbatim>\<open>hexToColorInt\<close> after the length check: the
  call of \<^verbatim>\<open>strconv.ParseInt(hex, 16, 0)\<close> and the two returns.
\<close>

definition hexToColorInt_parse :: "string \<Rightarrow> go_int \<times> go_error option" where
  "hexToColorInt_parse hex =
     (case ParseInt hex 16 of
        (decimalValue, Some err) \<Rightarrow>
          (0, Some (Errorf ''error parsing hex to int: %v'' [ArgErr err]))
      | (decimalValue, None) \<Rightarrow> (decimalValue, None))"

definition hexToColorInt :: "string \<Rightarrow> go_int \<times> go_error option" where
  "hexToColorInt hex =
     (if length hex = 7 \<and> hex ! 0 = CHR ''#'' then hexToColorInt_parse (drop 1 hex)
      else if length hex \<noteq> 6 then (0, Some (Errorf ''invalid hex color format'' []))
      else hexToColorInt_parse hex)"

definition CreateEmbed ::
  "string \<Rightarrow> string \<Rightarrow> string \<Rightarrow> colorEmbedTypes \<Rightarrow> Embed \<times> go_error option" where
  "CreateEmbed title description url color =
     (let (colorValue, err) =
        (case color of
           ColorString v \<Rightarrow> hexToColorInt v
         | ColorInt v \<Rightarrow>
             (v, if sint v > maxDecimalRGBValue \<or> sint v < minDecimalRGBValue
                 then Some (Errorf ''you can only use numbers from 0 to 16777215'' [])
                 else None)
         | ColorRGB v \<Rightarrow> rgbToInt v)
      in if err \<noteq> None then (zero_Embed, err)
         else (\<lparr>Embed_Title = title, Embed_Description = description, Embed_URL = url,
                 Embed_Color = colorValue, Embed_Timestamp = [], Embed_Footer = zero_Footer,
                 Embed_Image = zero_Image, Embed_Thumbnail = zero_Thumbnail,
                 Embed_Author = zero_Author, Embed_Fields = nil_slice\<rparr>, None))"

definition SendWebhook :: "http_Post \<Rightarrow> store \<Rightarrow> string \<Rightarrow> Webhook \<Rightarrow> go_error option" where
  "SendWebhook post st webhookUrl webhookPayload =
     (case json_Marshal st webhookPayload of
        (jsonData, Some err) \<Rightarrow>
          Some (Errorf ''failed to marshal JSON payload: %v'' [ArgErr err])
      | (jsonData, None) \<Rightarrow>
          (case post webhookUrl ''application/json'' jsonData of
             Inl err \<Rightarrow> Some (Errorf ''failed to post to Discord: %v'' [ArgErr err])
           | Inr resp \<Rightarrow>
               if Response_StatusCode resp \<noteq> 200 \<and> Response_StatusCode resp \<noteq> 204
               then Some (Errorf ''discord webhook returned status %d''
                            [ArgInt (sint (Response_StatusCode resp))])
               else None))"

section \<open>Notions of the specification\<close>

text \<open>
  What the specification calls a hex digit, the value of a digit string read in base 16,
  and an RGB triple with every channel from 0 to 255.  \<open>unsigned_part\<close> is a string
  without its leading sign, if it has one, \<open>hex_body\<close> the part of a color string
  that \<open>hexToColorInt\<close> parses.  \<open>new_Embed\<close> is an embed with the four given
  values and nothing else set.  \<open>Fields_of\<close> and \<open>Embeds_of\<close> are the field sequence
  of an embed and the embed sequence of a message, as the store has them.
\<close>

definition Fields_of :: "store \<Rightarrow> Embed \<Rightarrow> Field list" where
  "Fields_of st e = elems (field_arrays st) (Embed_Fields e)"

definition Embeds_of :: "store \<Rightarrow> Webhook \<Rightarrow> Embed list" where
  "Embeds_of st w = elems (embed_arrays st) (Webhook_Embeds w)"

definition is_hex_digit :: "char \<Rightarrow> bool" where
  "is_hex_digit c =
     (let b = (of_char c :: nat) in
      (48 \<le> b \<and> b \<le> 57) \<or> (97 \<le> b \<and> b \<le> 102) \<or> (65 \<le> b \<and> b \<le> 70))"

definition hex_digit_value :: "char \<Rightarrow> nat" where
  "hex_digit_value c =
     (let b = (of_char c :: nat) in
      if b \<le> 57 then b - 48 else if 97 \<le> b then b - 87 else b - 55)"

definition base16_value :: "string \<Rightarrow> nat" where
  "base16_value s = foldl (\<lambda>n c. 16 * n + hex_digit_value c) 0 s"

definition unsigned_part :: "string \<Rightarrow> string" where
  "unsigned_part s = (if s \<noteq> [] \<and> (hd s = CHR ''+'' \<or> hd s = CHR ''-'') then tl s else s)"

definition hex_body :: "string \<Rightarrow> string" where
  "hex_body hex = (if length hex = 7 \<and> hex ! 0 = CHR ''#'' then drop 1 hex else hex)"

definition rgb_in_range :: "RGB \<Rightarrow> bool" where
  "rgb_in_range rgb \<longleftrightarrow>
     0 \<le> sint (RGB_R rgb) \<and> sint (RGB_R rgb) \<le> 255 \<and>
     0 \<le> sint (RGB_G rgb) \<and> sint (RGB_G rgb) \<le> 255 \<and>
     0 \<le> sint (RGB_B rgb) \<and> sint (RGB_B rgb) \<le> 255"

definition new_Embed :: "string \<Rightarrow> string \<Rightarrow> string \<Rightarrow> go_int \<Rightarrow> Embed" where
  "new_Embed title description url colorValue =
     \<lparr>Embed_Title = title, Embed_Description = description, Embed_URL = url,
      Embed_Color = colorValue, Embed_Timestamp = [], Embed_Footer = zero_Footer,
      Embed_Image = zero_Image, Embed_Thumbnail = zero_Thumbnail,
      Embed_Author = zero_Author, Embed_Fields = nil_slice\<rparr>"

text \<open>
  The characters of a string are its runes, counted as \<^verbatim>\<open>utf8.RuneCountInString\<close> counts
  them: one for every well-formed encoding and one for every byte that begins none.
\<close>

fun RuneCountInString :: "string \<Rightarrow> nat" where
  "RuneCountInString [] = 0"
| "RuneCountInString (c # cs) =
     Suc (RuneCountInString (drop (max 1 (utf8_size (c # cs)) - 1) cs))"


subsection \<open>A run of the package\<close>

text \<open>
  A store with nothing allocated, under the runtime's rule for small slices: the capacity
  doubles unless more is needed (the rounding to allocation sizes is left out; for one
  \<^verbatim>\<open>Field\<close> appended at a time the capacities are 1, 2 and 4 either way).
  \<open>three_fields\<close> is the store and the embed after
  \<^verbatim>\<open>e.AddField(f1); e.AddField(f2); e.AddField(f3)\<close> on a zero embed: three fields in an
  array of capacity 4.  \<open>with_a\<close> is the store and the embed after \<^verbatim>\<open>e.AddField(a)\<close>;
  \<open>with_b\<close> is the store and the copy after \<^verbatim>\<open>e2.AddField(b)\<close>, where \<^verbatim>\<open>e2 := e\<close> was
  copied before \<^verbatim>\<open>a\<close> was added.  \<open>one_embed\<close> is the store and the message after
  \<^verbatim>\<open>w.AddEmbed(e)\<close> on a zero message, with the embed of \<open>three_fields\<close>.
\<close>

definition doubling :: "elem_type \<Rightarrow> nat \<Rightarrow> nat \<Rightarrow> nat" where
  "doubling t old needed = (if needed > 2 * old then needed else 2 * old)"

definition empty_store :: store where
  "empty_store = \<lparr>field_arrays = (\<lambda>a i. zero_Field), embed_arrays = (\<lambda>a i. zero_Embed),
     next_array = 1, growslice = doubling\<rparr>"





section \<open>Fields and embeds\<close>

subsection \<open>What an append does to the store\<close>

text \<open>
  After \<^verbatim>\<open>append(s, xs...)\<close> the result holds the elements of \<open>s\<close> followed by
  \<open>xs\<close>, whether the array was reused or a new one allocated; and a slice out of reach
  of the append holds what it held.
\<close>

lemma go_append_elems:
  assumes "go_append g z arrays next s xs = (arrays', next', s')"
  shows "elems arrays' s' = elems arrays s @ xs"
proof (rule nth_equalityI)
  show "length (elems arrays' s') = length (elems arrays s @ xs)"
    using assms by (auto simp: go_append_def elems_def Let_def split: if_splits)
next
  fix i assume "i < length (elems arrays' s')"
  then show "elems arrays' s' ! i = (elems arrays s @ xs) ! i"
    using assms by (auto simp: go_append_def elems_def Let_def nth_append split: if_splits)
qed


lemma AddFields_Fields_of:
  "Fields_of (fst (AddFields st e fs)) (snd (AddFields st e fs)) = Fields_of st e @ fs"
proof -
  obtain arrays nxt s where
    a: "go_append (growslice st FieldT) zero_Field (field_arrays st) (next_array st)
          (Embed_Fields e) fs = (arrays, nxt, s)"
    by (cases "go_append (growslice st FieldT) zero_Field (field_arrays st) (next_array st)
          (Embed_Fields e) fs") auto
  from go_append_elems [OF a] a show ?thesis
    by (simp add: AddFields_def Fields_of_def)
qed

lemma AddField_AddFields: "AddField st e f = AddFields st e [f]"
  by (simp add: AddField_def AddFields_def)



lemma AddEmbed_Embeds_of:
  "Embeds_of (fst (AddEmbed st w e)) (snd (AddEmbed st w e)) = Embeds_of st w @ [e]"
proof -
  obtain arrays nxt s where
    a: "go_append (growslice st EmbedT) zero_Embed (embed_arrays st) (next_array st)
          (Webhook_Embeds w) [e] = (arrays, nxt, s)"
    by (cases "go_append (growslice st EmbedT) zero_Embed (embed_arrays st) (next_array st)
          (Webhook_Embeds w) [e]") auto
  from go_append_elems [OF a] a show ?thesis
    by (simp add: AddEmbed_def Embeds_of_def)
qed


lemma AddEmbed_rest:
  "Webhook_Content (snd (AddEmbed st w e)) = Webhook_Content w"
  "Webhook_Username (snd (AddEmbed st w e)) = Webhook_Username w"
  "Webhook_AvatarURL (snd (AddEmbed st w e)) = Webhook_AvatarURL w"
  "field_arrays (fst (AddEmbed st w e)) = field_arrays st"
  by (simp_all add: AddEmbed_def split: prod.splits)

subsection \<open>The claims\<close>

text \<open>
  C9.  On an embed whose field sequence is empty (a slice of length 0, nil or not),
  \<open>AddField\<close> with \<open>f1\<close> followed by \<open>AddFields\<close> with \<open>[f2, f3]\<close> gives the field
  sequence \<open>[f1, f2, f3]\<close>.  In general \<open>AddField\<close> and \<open>AddFields\<close> put the new
  fields after the fields already there, and keep both the old fields and the order of the
  new ones.  The field sequence is read from the store as the call leaves it.
\<close>

theorem C9_fields_appended:
  "Fields_of (fst (AddField st e f)) (snd (AddField st e f)) = Fields_of st e @ [f]
   \<and> Fields_of (fst (AddFields st e fs)) (snd (AddFields st e fs)) = Fields_of st e @ fs
   \<and> Fields_of
       (fst (AddFields (fst (AddField st (e\<lparr>Embed_Fields := s\<lparr>slice_len := 0\<rparr>\<rparr>) f1))
               (snd (AddField st (e\<lparr>Embed_Fields := s\<lparr>slice_len := 0\<rparr>\<rparr>) f1)) [f2, f3]))
       (snd (AddFields (fst (AddField st (e\<lparr>Embed_Fields := s\<lparr>slice_len := 0\<rparr>\<rparr>) f1))
               (snd (AddField st (e\<lparr>Embed_Fields := s\<lparr>slice_len := 0\<rparr>\<rparr>) f1)) [f2, f3]))
     = [f1, f2, f3]
   \<and> Fields_of st (e\<lparr>Embed_Fields := s\<lparr>slice_len := 0\<rparr>\<rparr>) = []"
proof -
  have empty: "Fields_of st (e\<lparr>Embed_Fields := s\<lparr>slice_len := 0\<rparr>\<rparr>) = []"
    by (simp add: Fields_of_def elems_def)
  show ?thesis
    by (simp add: AddFields_Fields_of AddField_AddFields empty)
qed







section \<open>Creating a message\<close>

text \<open>
  \<open>CreateWebhook\<close> compares \<^verbatim>\<open>len(content)\<close>, the number of bytes, with 2000: it
  returns no error exactly when the content has at most 2000 bytes, then with content,
  username and avatar URL as given and no embeds, and otherwise with the number of bytes
  in the error.
\<close>

lemma CreateWebhook_len:
  "(snd (CreateWebhook content username avatarURL) = None \<longleftrightarrow> length content \<le> 2000)
   \<and> (length content \<le> 2000 \<longrightarrow>
        CreateWebhook content username avatarURL
          = (\<lparr>Webhook_Content = content, Webhook_Username = username,
               Webhook_AvatarURL = avatarURL, Webhook_Embeds = nil_slice\<rparr>, None))
   \<and> (2000 < length content \<longrightarrow>
        CreateWebhook content username avatarURL
          = (zero_Webhook,
             Some (Errorf
               ''the length of the content cannot exceed 2000 characters (your length: %d)''
               [ArgInt (int (length content))])))"
  by (simp add: CreateWebhook_def)

lemma CreateWebhook_len_examples:
  "CreateWebhook (replicate 2000 CHR ''a'') ''bot'' ''url''
     = (\<lparr>Webhook_Content = replicate 2000 CHR ''a'', Webhook_Username = ''bot'',
          Webhook_AvatarURL = ''url'', Webhook_Embeds = nil_slice\<rparr>, None)
   \<and> CreateWebhook (replicate 2001 CHR ''a'') ''bot'' ''url''
     = (zero_Webhook,
        Some (Errorf
          ''the length of the content cannot exceed 2000 characters (your length: %d)''
          [ArgInt 2001]))"
  using CreateWebhook_len [of "replicate 2000 CHR ''a''" "''bot''" "''url''"]
    CreateWebhook_len [of "replicate 2001 CHR ''a''" "''bot''" "''url''"]
  by simp

lemma RuneCountInString_two_bytes:
  "RuneCountInString (concat (replicate n [CHR 0xC3, CHR 0xA9])) = n"
  by (induction n) (simp_all add: cont_byte_def)

lemma length_two_bytes: "length (concat (replicate n [a, b])) = 2 * n"
  by (induction n) simp_all

text \<open>
  C5 says that \<open>CreateWebhook\<close> succeeds exactly when the content has at most 2000
  characters, and the error text of the code speaks of 2000 characters as well.  The
  content of 1001 times the character U+00E9, two bytes each in UTF-8 (C3 A9), has 1001
  characters and 2002 bytes; the code refuses it and reports the length 2002.
\<close>

theorem C5_characters_counted_as_bytes:
  "RuneCountInString (concat (replicate 1001 [CHR 0xC3, CHR 0xA9])) = 1001
   \<and> length (concat (replicate 1001 [CHR 0xC3, CHR 0xA9])) = 2002
   \<and> CreateWebhook (concat (replicate 1001 [CHR 0xC3, CHR 0xA9])) ''bot'' ''url''
     = (zero_Webhook,
        Some (Errorf
          ''the length of the content cannot exceed 2000 characters (your length: %d)''
          [ArgInt 2002]))"
  by (simp add: RuneCountInString_two_bytes length_two_bytes CreateWebhook_def)

section \<open>Colors\<close>

subsection \<open>Integers and RGB triples\<close>

text \<open>
  C4.  With an integer \<open>v\<close> as the color, \<open>CreateEmbed\<close> returns no error exactly when
  \<open>0 \<le> v \<le> 16777215\<close>; then the embed's color is \<open>v\<close> itself.  Outside the range it
  returns the error whose text names the bounds 0 and 16777215.
\<close>

theorem C4_int:
  "(snd (CreateEmbed t d u (ColorInt v)) = None \<longleftrightarrow> 0 \<le> sint v \<and> sint v \<le> 16777215)
   \<and> (0 \<le> sint v \<and> sint v \<le> 16777215 \<longrightarrow>
        CreateEmbed t d u (ColorInt v) = (new_Embed t d u v, None))
   \<and> (\<not> (0 \<le> sint v \<and> sint v \<le> 16777215) \<longrightarrow>
        CreateEmbed t d u (ColorInt v)
          = (zero_Embed, Some (Errorf ''you can only use numbers from 0 to 16777215'' [])))"
  by (auto simp: CreateEmbed_def new_Embed_def maxDecimalRGBValue_def minDecimalRGBValue_def)

theorem C4_int_witness:
  "CreateEmbed ''t'' ''d'' ''u'' (ColorInt 16777215) = (new_Embed ''t'' ''d'' ''u'' 16777215, None)
   \<and> CreateEmbed ''t'' ''d'' ''u'' (ColorInt 0) = (new_Embed ''t'' ''d'' ''u'' 0, None)
   \<and> CreateEmbed ''t'' ''d'' ''u'' (ColorInt 16777216)
        = (zero_Embed, Some (Errorf ''you can only use numbers from 0 to 16777215'' []))
   \<and> CreateEmbed ''t'' ''d'' ''u'' (ColorInt (- 1))
        = (zero_Embed, Some (Errorf ''you can only use numbers from 0 to 16777215'' []))"
  using C4_int [of "''t''" "''d''" "''u''" 16777215] C4_int [of "''t''" "''d''" "''u''" 0]
    C4_int [of "''t''" "''d''" "''u''" 16777216] C4_int [of "''t''" "''d''" "''u''" "- 1"]
  by simp

text \<open>
  C3.  With an RGB triple whose three channels lie in \<open>[0, 255]\<close>, \<open>CreateEmbed\<close>
  returns no error and the embed's color is \<open>(R << 16) | (G << 8) | B\<close>.  With a channel
  outside \<open>[0, 255]\<close> it returns the zero embed and the error of \<open>rgbToInt\<close>, and
  \<open>rgbToInt\<close> returns the packed integer all the same, beside its error.
\<close>

theorem C3_rgb:
  "(rgb_in_range rgb \<longrightarrow>
      CreateEmbed t d u (ColorRGB rgb)
        = (new_Embed t d u (push_bit 16 (RGB_R rgb) OR push_bit 8 (RGB_G rgb) OR RGB_B rgb), None))
   \<and> (\<not> rgb_in_range rgb \<longrightarrow>
      CreateEmbed t d u (ColorRGB rgb)
        = (zero_Embed, Some (Errorf ''rgb color can only be from 0 to 255'' []))
      \<and> rgbToInt rgb
        = (push_bit 16 (RGB_R rgb) OR push_bit 8 (RGB_G rgb) OR RGB_B rgb,
           Some (Errorf ''rgb color can only be from 0 to 255'' [])))"
  by (auto simp: CreateEmbed_def rgbToInt_def rgb_in_range_def new_Embed_def
      maxRGBValue_def minRGBValue_def Let_def)

theorem C3_rgb_witness:
  "CreateEmbed ''t'' ''d'' ''u'' (ColorRGB \<lparr>RGB_R = 111, RGB_G = 222, RGB_B = 77\<rparr>)
     = (new_Embed ''t'' ''d'' ''u'' 7331405, None)
   \<and> CreateEmbed ''t'' ''d'' ''u'' (ColorRGB \<lparr>RGB_R = 256, RGB_G = 0, RGB_B = 1\<rparr>)
     = (zero_Embed, Some (Errorf ''rgb color can only be from 0 to 255'' []))
   \<and> rgbToInt \<lparr>RGB_R = 256, RGB_G = 0, RGB_B = 1\<rparr>
     = (16777217, Some (Errorf ''rgb color can only be from 0 to 255'' []))"
  using C3_rgb [of "\<lparr>RGB_R = 111, RGB_G = 222, RGB_B = 77\<rparr>" "''t''" "''d''" "''u''"]
    C3_rgb [of "\<lparr>RGB_R = 256, RGB_G = 0, RGB_B = 1\<rparr>" "''t''" "''d''" "''u''"]
  by (simp add: rgb_in_range_def)

subsection \<open>Hex strings: the digit loop\<close>

lemma digit_of_hex:
  "is_hex_digit c \<Longrightarrow> digit_of c = Some (hex_digit_value c) \<and> hex_digit_value c < 16"
  by (auto simp: is_hex_digit_def digit_of_def hex_digit_value_def Let_def)

lemma digit_of_not_hex:
  "\<not> is_hex_digit c \<Longrightarrow> digit_of c = None \<or> (\<exists>d. digit_of c = Some d \<and> 16 \<le> d)"
  by (auto simp: is_hex_digit_def digit_of_def Let_def)

lemma sign_not_hex: "\<not> is_hex_digit CHR ''+''" "\<not> is_hex_digit CHR ''-''"
  by (simp_all add: is_hex_digit_def)

text \<open>
  The loop's invariant: with \<open>k\<close> bytes left, \<open>(n + 1) * 16 ^ k\<close> stays below the
  bound, so neither range check of the loop fires.
\<close>

lemma loop_bound_step:
  fixes n d k B :: nat
  assumes "(n + 1) * 16 ^ Suc k \<le> B" and "d < 16"
  shows "(16 * n + d + 1) * 16 ^ k \<le> B" and "(n + 1) * 16 \<le> B"
proof -
  have eq: "(n + 1) * 16 ^ Suc k = ((n + 1) * 16) * 16 ^ k"
    by (simp add: algebra_simps)
  have "16 * n + d + 1 \<le> (n + 1) * 16" using assms(2) by simp
  then have "(16 * n + d + 1) * 16 ^ k \<le> ((n + 1) * 16) * 16 ^ k"
    by (rule mult_le_mono1)
  with assms(1) eq show "(16 * n + d + 1) * 16 ^ k \<le> B" by linarith
  have "((n + 1) * 16) * 1 \<le> ((n + 1) * 16) * 16 ^ k"
    by (rule mult_le_mono2) simp
  with assms(1) eq show "(n + 1) * 16 \<le> B" by linarith
qed

lemma ParseUint_loop_step:
  assumes "digit_of c = Some d" and "d < 16" and "(n + 1) * 16 \<le> 2 ^ 60"
  shows "ParseUint_loop 16 (2 ^ 64 - 1) (c # cs) n
           = ParseUint_loop 16 (2 ^ 64 - 1) cs (n * 16 + d)"
  using assms by simp

lemma ParseUint_loop_hex:
  "\<forall>c\<in>set cs. is_hex_digit c \<Longrightarrow> (n + 1) * 16 ^ length cs \<le> 2 ^ 60 \<Longrightarrow>
   ParseUint_loop 16 (2 ^ 64 - 1) cs n = (foldl (\<lambda>n c. 16 * n + hex_digit_value c) n cs, None)
   \<and> foldl (\<lambda>n c. 16 * n + hex_digit_value c) n cs < (n + 1) * 16 ^ length cs"
proof (induction cs arbitrary: n)
  case Nil
  then show ?case by simp
next
  case (Cons c cs)
  let ?d = "hex_digit_value c"
  from Cons.prems(1) have hc: "digit_of c = Some ?d" "?d < 16"
    using digit_of_hex by auto
  from Cons.prems(2) have b: "(n + 1) * 16 ^ Suc (length cs) \<le> 2 ^ 60" by simp
  note inv = loop_bound_step(1) [OF b hc(2)] and n16 = loop_bound_step(2) [OF b hc(2)]
  from Cons.prems(1) have rest: "\<forall>c\<in>set cs. is_hex_digit c" by simp
  note IH = Cons.IH [OF rest inv]
  have "foldl (\<lambda>n c. 16 * n + hex_digit_value c) (16 * n + ?d) cs
          < (16 * n + ?d + 1) * 16 ^ length cs" using IH by simp
  also have "\<dots> \<le> ((n + 1) * 16) * 16 ^ length cs"
    using hc(2) by (intro mult_le_mono1) simp
  finally have lt: "foldl (\<lambda>n c. 16 * n + hex_digit_value c) (16 * n + ?d) cs
          < (n + 1) * 16 ^ length (c # cs)" by (simp add: algebra_simps)
  show ?case
    using ParseUint_loop_step [OF hc n16, of cs] IH lt by (simp add: mult.commute)
qed

lemma ParseUint_loop_not_hex:
  "\<exists>c\<in>set cs. \<not> is_hex_digit c \<Longrightarrow> (n + 1) * 16 ^ length cs \<le> 2 ^ 60 \<Longrightarrow>
   ParseUint_loop 16 (2 ^ 64 - 1) cs n = (0, Some ErrSyntax)"
proof (induction cs arbitrary: n)
  case Nil
  then show ?case by simp
next
  case (Cons c cs)
  show ?case
  proof (cases "is_hex_digit c")
    case False
    then show ?thesis using digit_of_not_hex [of c] by auto
  next
    case True
    let ?d = "hex_digit_value c"
    from True have hc: "digit_of c = Some ?d" "?d < 16"
      using digit_of_hex by auto
    from True Cons.prems(1) have rest: "\<exists>c\<in>set cs. \<not> is_hex_digit c" by auto
    from Cons.prems(2) have b: "(n + 1) * 16 ^ Suc (length cs) \<le> 2 ^ 60" by simp
    note inv = loop_bound_step(1) [OF b hc(2)] and n16 = loop_bound_step(2) [OF b hc(2)]
    show ?thesis
      using ParseUint_loop_step [OF hc n16, of cs] Cons.IH [OF rest inv]
      by (simp add: mult.commute)
  qed
qed

lemma ParseInt_hex6:
  assumes len: "length s = 6" and hex: "\<forall>c\<in>set s. is_hex_digit c"
  shows "ParseInt s 16 = (word_of_nat (base16_value s), None)" and "base16_value s < 2 ^ 24"
proof -
  from len have ne: "s \<noteq> []" by auto
  then have "hd s \<in> set s" by simp
  with hex have "is_hex_digit (hd s)" by blast
  then have nosign: "hd s \<noteq> CHR ''+''" "hd s \<noteq> CHR ''-''"
    using sign_not_hex by auto
  have b: "(0 + 1) * 16 ^ length s \<le> (2::nat) ^ 60" using len by simp
  from ParseUint_loop_hex [OF hex b]
  have loop: "ParseUint_loop 16 (2 ^ 64 - 1) s 0 = (base16_value s, None)"
    and lt: "base16_value s < 16 ^ 6"
    using len by (simp_all add: base16_value_def)
  from lt show "base16_value s < 2 ^ 24" by simp
  from lt have "\<not> base16_value s \<ge> 2 ^ 63" by simp
  then show "ParseInt s 16 = (word_of_nat (base16_value s), None)"
    using ne nosign loop by (simp add: ParseInt_def ParseUint_def)
qed

lemma ParseInt_not_hex6:
  assumes len: "length s = 6" and bad: "\<exists>c\<in>set (unsigned_part s). \<not> is_hex_digit c"
  shows "ParseInt s 16 = (0, Some (NumError ''ParseInt'' s ErrSyntax))"
proof -
  from len have ne: "s \<noteq> []" by auto
  let ?u = "unsigned_part s"
  have une: "?u \<noteq> []" using bad by auto
  have "length ?u \<le> 6" using len by (simp add: unsigned_part_def)
  then have "(16::nat) ^ length ?u \<le> 16 ^ 6" by (intro power_increasing) simp_all
  then have b: "(0 + 1) * 16 ^ length ?u \<le> (2::nat) ^ 60" by simp
  from ParseUint_loop_not_hex [OF bad b]
  have "ParseUint ?u 16 = (0, Some ErrSyntax)" using une by (simp add: ParseUint_def)
  then show ?thesis using ne by (simp add: ParseInt_def unsigned_part_def)
qed

lemma int_lt_2p63: "n < 2 ^ 24 \<Longrightarrow> int n < 2 ^ 63" for n :: nat
  by simp

lemma nat_lt_2p64: "n < 2 ^ 24 \<Longrightarrow> n < 2 ^ 64" for n :: nat
  by simp

lemma int_ge_m2p63: "- (2 ^ 63) \<le> int n"
  by (rule order_trans [of _ 0]) simp_all

lemma sint_word_of_nat_small:
  assumes "n < 2 ^ 24"
  shows "sint (word_of_nat n :: 64 word) = int n"
proof -
  have "signed_take_bit 63 (int n) = int n"
    using int_lt_2p63 [OF assms] int_ge_m2p63 [of n] by (intro signed_take_bit_int_eq_self)
  then show ?thesis
    by (simp add: signed_of_nat)
qed

lemma unat_word_of_nat_small:
  assumes "n < 2 ^ 24"
  shows "unat (word_of_nat n :: 64 word) = n"
  using nat_lt_2p64 [OF assms] by (simp add: unat_of_nat)

subsection \<open>Hex strings: the claims\<close>

text \<open>
  C2, as the code has it.  (1) For a string \<open>s\<close> of exactly six hex digits,
  \<open>hexToColorInt\<close> on \<open>s\<close> and on \<open>s\<close> with one \<^verbatim>\<open>#\<close> before it returns no error and
  the value of the six digits read in base 16.  (2) For a string whose length is neither
  6, nor 7 with a leading \<^verbatim>\<open>#\<close>, it returns the invalid-format error.  (3) For a string
  \<open>s\<close> of length 6 in which some character other than a leading sign \<^verbatim>\<open>+\<close> or \<^verbatim>\<open>-\<close> is
  not a hex digit, on \<open>s\<close> and on \<open>s\<close> with one \<^verbatim>\<open>#\<close> before it, it returns the parse
  error, which wraps the syntax error of \<^verbatim>\<open>strconv.ParseInt\<close> on \<open>s\<close> and differs from
  the invalid-format error.  Nothing is said of a sign followed by five hex digits.
\<close>

theorem C2_hex:
  "(length s = 6 \<and> (\<forall>c\<in>set s. is_hex_digit c) \<longrightarrow>
      hexToColorInt s = (word_of_nat (base16_value s), None)
      \<and> hexToColorInt (CHR ''#'' # s) = (word_of_nat (base16_value s), None)
      \<and> unat (word_of_nat (base16_value s) :: go_int) = base16_value s
      \<and> sint (word_of_nat (base16_value s) :: go_int) = int (base16_value s))
   \<and> (length s \<noteq> 6 \<and> \<not> (length s = 7 \<and> hd s = CHR ''#'') \<longrightarrow>
      hexToColorInt s = (0, Some (Errorf ''invalid hex color format'' [])))
   \<and> (length s = 6 \<and> (\<exists>c\<in>set (unsigned_part s). \<not> is_hex_digit c) \<longrightarrow>
      hexToColorInt s
        = (0, Some (Errorf ''error parsing hex to int: %v''
                      [ArgErr (NumError ''ParseInt'' s ErrSyntax)]))
      \<and> hexToColorInt (CHR ''#'' # s)
        = (0, Some (Errorf ''error parsing hex to int: %v''
                      [ArgErr (NumError ''ParseInt'' s ErrSyntax)]))
      \<and> Errorf ''error parsing hex to int: %v'' [ArgErr (NumError ''ParseInt'' s ErrSyntax)]
        \<noteq> Errorf ''invalid hex color format'' [])"
proof (intro conjI impI)
  assume a: "length s = 6 \<and> (\<forall>c\<in>set s. is_hex_digit c)"
  then have p: "ParseInt s 16 = (word_of_nat (base16_value s), None)"
    and lt: "base16_value s < 2 ^ 24"
    using ParseInt_hex6 by auto
  from a p show "hexToColorInt s = (word_of_nat (base16_value s), None)"
    by (simp add: hexToColorInt_def hexToColorInt_parse_def)
  from a p show "hexToColorInt (CHR ''#'' # s) = (word_of_nat (base16_value s), None)"
    by (simp add: hexToColorInt_def hexToColorInt_parse_def)
  from lt show "unat (word_of_nat (base16_value s) :: go_int) = base16_value s"
    by (rule unat_word_of_nat_small)
  from lt show "sint (word_of_nat (base16_value s) :: go_int) = int (base16_value s)"
    by (rule sint_word_of_nat_small)
next
  assume a: "length s \<noteq> 6 \<and> \<not> (length s = 7 \<and> hd s = CHR ''#'')"
  have "length s = 7 \<Longrightarrow> s ! 0 = hd s" by (cases s) simp_all
  with a show "hexToColorInt s = (0, Some (Errorf ''invalid hex color format'' []))"
    by (auto simp: hexToColorInt_def)
next
  assume a: "length s = 6 \<and> (\<exists>c\<in>set (unsigned_part s). \<not> is_hex_digit c)"
  then have p: "ParseInt s 16 = (0, Some (NumError ''ParseInt'' s ErrSyntax))"
    using ParseInt_not_hex6 by blast
  from a p show "hexToColorInt s
      = (0, Some (Errorf ''error parsing hex to int: %v''
                    [ArgErr (NumError ''ParseInt'' s ErrSyntax)]))"
    by (simp add: hexToColorInt_def hexToColorInt_parse_def)
  from a p show "hexToColorInt (CHR ''#'' # s)
      = (0, Some (Errorf ''error parsing hex to int: %v''
                    [ArgErr (NumError ''ParseInt'' s ErrSyntax)]))"
    by (simp add: hexToColorInt_def hexToColorInt_parse_def)
  show "Errorf ''error parsing hex to int: %v'' [ArgErr (NumError ''ParseInt'' s ErrSyntax)]
      \<noteq> Errorf ''invalid hex color format'' []"
    by simp
qed

theorem C2_hex_witness:
  "hexToColorInt ''ff5733'' = (16734003, None)
   \<and> hexToColorInt ''#ff5733'' = (16734003, None)
   \<and> hexToColorInt ''12345'' = (0, Some (Errorf ''invalid hex color format'' []))
   \<and> hexToColorInt ''gg5733''
       = (0, Some (Errorf ''error parsing hex to int: %v''
                     [ArgErr (NumError ''ParseInt'' ''gg5733'' ErrSyntax)]))
   \<and> hexToColorInt ''#gg5733''
       = (0, Some (Errorf ''error parsing hex to int: %v''
                     [ArgErr (NumError ''ParseInt'' ''gg5733'' ErrSyntax)]))"
  using C2_hex [of "''ff5733''"] C2_hex [of "''12345''"] C2_hex [of "''gg5733''"]
  by (simp add: is_hex_digit_def base16_value_def hex_digit_value_def unsigned_part_def)

text \<open>
  Where C2 as first stated fails.  The string \<^verbatim>\<open>#12345\<close> has length 5 once its \<^verbatim>\<open>#\<close> is
  stripped, yet the code strips nothing from a string of length 6 and returns the parse
  error, not the invalid-format error.  The string \<^verbatim>\<open>-12345\<close> has length 6 and holds a
  character that is no hex digit, yet the code returns no error.
\<close>

theorem C2_hex_counterexample:
  "length (if hd ''#12345'' = CHR ''#'' then tl ''#12345'' else ''#12345'') \<noteq> 6
   \<and> hexToColorInt ''#12345''
       = (0, Some (Errorf ''error parsing hex to int: %v''
                     [ArgErr (NumError ''ParseInt'' ''#12345'' ErrSyntax)]))
   \<and> hexToColorInt ''#12345'' \<noteq> (0, Some (Errorf ''invalid hex color format'' []))
   \<and> length ''-12345'' = 6 \<and> \<not> is_hex_digit CHR ''-''
   \<and> hexToColorInt ''-12345'' = (- 74565, None)"
  by (simp add: hexToColorInt_def hexToColorInt_parse_def ParseInt_def ParseUint_def
      digit_of_def is_hex_digit_def)

subsection \<open>The range of the stored color\<close>

text \<open>
  A word whose bits above the lowest 24 are clear reads, signed, as a number from 0 to
  16777215; the packed value of three channels from 0 to 255 is such a word.
\<close>

lemma chan_uint:
  fixes r :: go_int
  assumes "0 \<le> sint r" "sint r \<le> 255"
  shows "uint r = sint r"
proof -
  have "sint r < 2 ^ 64" using assms(2) by simp
  with assms(1) have "take_bit 64 (sint r) = sint r"
    by (rule take_bit_int_eq_self)
  then show ?thesis by (simp add: uint_sint)
qed

lemma chan_take_bit:
  fixes r :: go_int
  assumes "0 \<le> sint r" "sint r \<le> 255"
  shows "take_bit 8 r = r"
proof -
  have "uint r < 2 ^ 8" using chan_uint [OF assms] assms(2) by simp
  moreover have "0 \<le> uint r" by simp
  ultimately have "take_bit 8 (uint r) = uint r"
    by (intro take_bit_int_eq_self)
  then have "uint (take_bit 8 r) = uint r"
    by (simp add: unsigned_take_bit_eq)
  then show ?thesis by (simp only: word_uint_eq_iff)
qed

lemma packed_take_bit:
  fixes r g b :: go_int
  shows "take_bit 24 (push_bit 16 (take_bit 8 r) OR push_bit 8 (take_bit 8 g) OR take_bit 8 b)
       = push_bit 16 (take_bit 8 r) OR push_bit 8 (take_bit 8 g) OR take_bit 8 b"
  by (rule bit_word_eqI) (auto simp: bit_simps)

lemma small_sint:
  fixes w :: go_int
  assumes "take_bit 24 w = w"
  shows "0 \<le> sint w \<and> sint w \<le> 16777215"
proof -
  have "take_bit 24 (uint w) < 2 ^ 24"
    by (rule take_bit_int_less_exp)
  then have "uint (take_bit 24 w) < 2 ^ 24"
    by (simp only: unsigned_take_bit_eq)
  with assms have u: "uint w < 2 ^ 24" by simp
  then have hi: "uint w < 2 ^ 63" by simp
  have lo: "- (2 ^ 63) \<le> uint w" by (rule order_trans [of _ 0]) simp_all
  have "signed_take_bit 63 (uint w) = uint w"
    using lo hi by (rule signed_take_bit_int_eq_self)
  then have "sint w = uint w"
    by (simp add: sint_uint)
  with u show ?thesis by simp
qed

lemma rgbToInt_range:
  assumes "rgb_in_range rgb"
  shows "0 \<le> sint (fst (rgbToInt rgb)) \<and> sint (fst (rgbToInt rgb)) \<le> 16777215"
proof -
  from assms have r: "take_bit 8 (RGB_R rgb) = RGB_R rgb"
    and g: "take_bit 8 (RGB_G rgb) = RGB_G rgb"
    and b: "take_bit 8 (RGB_B rgb) = RGB_B rgb"
    by (simp_all add: rgb_in_range_def chan_take_bit)
  have "take_bit 24 (push_bit 16 (RGB_R rgb) OR push_bit 8 (RGB_G rgb) OR RGB_B rgb)
      = push_bit 16 (RGB_R rgb) OR push_bit 8 (RGB_G rgb) OR RGB_B rgb"
    using packed_take_bit [of "RGB_R rgb" "RGB_G rgb" "RGB_B rgb"] by (simp only: r g b)
  then show ?thesis
    using small_sint by (simp add: rgbToInt_def Let_def)
qed

text \<open>
  A hex string that \<open>hexToColorInt\<close> accepts and that has no sign before its digits
  gives a number from 0 to 16777215.
\<close>

lemma hexToColorInt_unsigned_range:
  assumes ok: "snd (hexToColorInt v) = None"
    and nosign: "unsigned_part (hex_body v) = hex_body v"
  shows "0 \<le> sint (fst (hexToColorInt v)) \<and> sint (fst (hexToColorInt v)) \<le> 16777215"
proof -
  let ?b = "hex_body v"
  from ok have len: "length ?b = 6" and eq: "hexToColorInt v = hexToColorInt_parse ?b"
    by (auto simp: hexToColorInt_def hex_body_def split: if_splits)
  have hex: "\<forall>c\<in>set ?b. is_hex_digit c"
  proof (rule ccontr)
    assume "\<not> (\<forall>c\<in>set ?b. is_hex_digit c)"
    then have "\<exists>c\<in>set (unsigned_part ?b). \<not> is_hex_digit c" using nosign by simp
    from ParseInt_not_hex6 [OF len this] ok eq show False
      by (simp add: hexToColorInt_parse_def)
  qed
  from ParseInt_hex6 [OF len hex] eq
  have val: "fst (hexToColorInt v) = word_of_nat (base16_value ?b)"
    and lt: "base16_value ?b < 2 ^ 24"
    by (simp_all add: hexToColorInt_parse_def)
  from sint_word_of_nat_small [OF lt] lt val show ?thesis by simp
qed

text \<open>
  Whenever \<open>CreateEmbed\<close> returns no error, the color it stored lies in
  \<open>[0, 16777215]\<close>, unless the color was given as a string that, after its \<^verbatim>\<open>#\<close>,
  begins with a sign.
\<close>

lemma CreateEmbed_color_range:
  assumes ok: "snd (CreateEmbed t d u color) = None"
    and nosign: "\<And>v. color = ColorString v \<Longrightarrow> unsigned_part (hex_body v) = hex_body v"
  shows "0 \<le> sint (Embed_Color (fst (CreateEmbed t d u color)))
       \<and> sint (Embed_Color (fst (CreateEmbed t d u color))) \<le> 16777215"
proof (cases color)
  case (ColorString v)
  with ok have h: "snd (hexToColorInt v) = None"
    by (auto simp: CreateEmbed_def split: prod.splits if_splits)
  from hexToColorInt_unsigned_range [OF h nosign [OF ColorString]] ColorString h
  show ?thesis by (auto simp: CreateEmbed_def split: prod.splits)
next
  case (ColorInt v)
  with ok show ?thesis
    by (auto simp: CreateEmbed_def maxDecimalRGBValue_def minDecimalRGBValue_def split: if_splits)
next
  case (ColorRGB rgb)
  with ok have "rgb_in_range rgb"
    by (auto simp: CreateEmbed_def rgbToInt_def rgb_in_range_def maxRGBValue_def minRGBValue_def
        Let_def split: if_splits)
  from rgbToInt_range [OF this] ColorRGB show ?thesis
    by (auto simp: CreateEmbed_def zero_Embed_def split: prod.splits)
qed

text \<open>
  C1 says that the color of an embed that \<open>CreateEmbed\<close> returns without error lies in
  \<open>[0, 16777215]\<close>.  On the hex string \<^verbatim>\<open>-fffff\<close> the code returns no error and an
  embed whose color is \<open>- 1048575\<close>: the string has length 6, and
  \<^verbatim>\<open>strconv.ParseInt\<close> reads its first character as the sign.
\<close>

theorem C1_negative_hex_color:
  "CreateEmbed ''Title'' ''Description'' ''https://example.com'' (ColorString ''-fffff'')
     = (new_Embed ''Title'' ''Description'' ''https://example.com'' (- 1048575), None)
   \<and> sint (- 1048575 :: go_int) = - 1048575
   \<and> sint (- 1048575 :: go_int) < 0"
  by (simp add: CreateEmbed_def new_Embed_def hexToColorInt_def hexToColorInt_parse_def
      ParseInt_def ParseUint_def digit_of_def)

section \<open>Timestamps\<close>

lemmas time_Parse_defs = time_Parse_RFC3339_def parse_year_def skip_def getnum_def
  isDigit_def digit_value_def check_def skip_fraction_def parse_zone_def daysIn_def
  isLeap_def commaOrPeriod_def

text \<open>
  The four examples of the specification: two timestamps that are accepted, two that are
  rejected.
\<close>

lemma isValidISO8601_examples:
  "isValidISO8601 ''2024-01-15T10:30:00Z''"
  "isValidISO8601 ''2024-01-15T10:30:00+02:00''"
  "\<not> isValidISO8601 ''2024-01-15 10:30:00''"
  "\<not> isValidISO8601 ''not-a-date''"
  by (simp_all add: isValidISO8601_def time_Parse_defs)

text \<open>
  \<open>SetTimestamp\<close> stores the text as given when the validator accepts it, and otherwise
  returns its error and the embed as it was.
\<close>

lemma SetTimestamp_accepted:
  "isValidISO8601 ts \<Longrightarrow> SetTimestamp e ts = (e\<lparr>Embed_Timestamp := ts\<rparr>, None)"
  by (simp add: SetTimestamp_def)

lemma SetTimestamp_rejected:
  "\<not> isValidISO8601 ts \<Longrightarrow>
   SetTimestamp e ts = (e, Some (Errorf ''timestamp is not ISO8601 timestamp'' []))"
  by (simp add: SetTimestamp_def)

text \<open>
  C7 says that \<open>SetTimestamp\<close> succeeds exactly on the texts of the strict profile, with
  a two-digit hour.  The text \<^verbatim>\<open>2024-01-15T1:30:00Z\<close> has a one-digit hour;
  \<^verbatim>\<open>time.Parse\<close> accepts it, so \<open>isValidISO8601\<close> is true of it and \<open>SetTimestamp\<close>
  stores it without error.  The same holds of a comma before the fraction of a second.
\<close>

theorem C7_one_digit_hour_accepted:
  "isValidISO8601 ''2024-01-15T1:30:00Z''
   \<and> SetTimestamp zero_Embed ''2024-01-15T1:30:00Z''
       = (zero_Embed\<lparr>Embed_Timestamp := ''2024-01-15T1:30:00Z''\<rparr>, None)
   \<and> isValidISO8601 ''2024-01-15T10:30:00,5Z''"
  by (simp add: SetTimestamp_def isValidISO8601_def time_Parse_defs)

section \<open>Serialization and delivery\<close>

text \<open>
  C6 says that no optional field holding its zero value is serialized, an embed's unset
  footer, image, thumbnail and author included.  For the message made by
  \<open>CreateWebhook\<close> with content \<^verbatim>\<open>hi\<close>, to which the embed made by \<open>CreateEmbed\<close> with
  title \<^verbatim>\<open>T\<close> and color 0 is added, in any store, the zero-valued strings, the zero color
  and the empty field sequence are left out, but the four unset sub-objects are each
  serialized as an empty object.
\<close>

theorem C6_unset_subobjects_serialized:
  "marshal_Webhook
     (fst (AddEmbed st (fst (CreateWebhook ''hi'' [] []))
             (fst (CreateEmbed ''T'' [] [] (ColorInt 0)))))
     (snd (AddEmbed st (fst (CreateWebhook ''hi'' [] []))
             (fst (CreateEmbed ''T'' [] [] (ColorInt 0)))))
   = JObject
       [(''content'', JString ''hi''),
        (''embeds'', JArray
           [JObject
              [(''title'', JString ''T''),
               (''footer'', JObject []),
               (''image'', JObject []),
               (''thumbnail'', JObject []),
               (''author'', JObject [])]])]"
proof -
  let ?w = "fst (CreateWebhook ''hi'' [] [])"
  let ?e = "fst (CreateEmbed ''T'' [] [] (ColorInt 0))"
  have w: "?w = \<lparr>Webhook_Content = ''hi'', Webhook_Username = [], Webhook_AvatarURL = [],
      Webhook_Embeds = nil_slice\<rparr>"
    by (simp add: CreateWebhook_def)
  have e: "?e = new_Embed ''T'' [] [] 0"
    by (simp add: CreateEmbed_def new_Embed_def minDecimalRGBValue_def maxDecimalRGBValue_def)
  have "Embeds_of st ?w = []"
    by (simp add: w Embeds_of_def elems_def nil_slice_def)
  then have embeds: "elems (embed_arrays (fst (AddEmbed st ?w ?e)))
      (Webhook_Embeds (snd (AddEmbed st ?w ?e))) = [?e]"
    using AddEmbed_Embeds_of [of st ?w ?e] by (simp add: Embeds_of_def)
  have emb: "marshal_Embed st' (new_Embed ''T'' [] [] 0)
      = JObject [(''title'', JString ''T''), (''footer'', JObject []), (''image'', JObject []),
          (''thumbnail'', JObject []), (''author'', JObject [])]" for st'
    by (simp add: marshal_Embed_def new_Embed_def marshal_Footer_def marshal_Image_def
        marshal_Thumbnail_def marshal_Author_def omitempty_string_def omitempty_int_def
        omitempty_slice_def omitempty_struct_def zero_Footer_def zero_Image_def
        zero_Thumbnail_def zero_Author_def elems_def nil_slice_def)
  show ?thesis
    unfolding marshal_Webhook_def embeds AddEmbed_rest
    by (simp add: w e emb omitempty_string_def omitempty_slice_def)
qed

text \<open>
  C8.  \<open>SendWebhook\<close> returns no error exactly when the POST of the serialized message
  came back with a response whose status is 200 or 204.  When the transport failed, the
  error wraps the transport's error; when a response came back with any other status, the
  error carries that status code.
\<close>

theorem C8_send:
  "(SendWebhook post st url w = None \<longleftrightarrow>
      (\<exists>resp. post url ''application/json'' (marshal_Webhook st w) = Inr resp
         \<and> (Response_StatusCode resp = 200 \<or> Response_StatusCode resp = 204)))
   \<and> (\<forall>cause. post url ''application/json'' (marshal_Webhook st w) = Inl cause \<longrightarrow>
        SendWebhook post st url w
          = Some (Errorf ''failed to post to Discord: %v'' [ArgErr cause]))
   \<and> (\<forall>resp. post url ''application/json'' (marshal_Webhook st w) = Inr resp
          \<and> Response_StatusCode resp \<noteq> 200 \<and> Response_StatusCode resp \<noteq> 204 \<longrightarrow>
        SendWebhook post st url w
          = Some (Errorf ''discord webhook returned status %d''
                    [ArgInt (sint (Response_StatusCode resp))]))"
  by (auto simp: SendWebhook_def json_Marshal_def split: sum.splits)

theorem C8_send_witness:
  "SendWebhook (\<lambda>u c b. Inr \<lparr>Response_StatusCode = 204\<rparr>) empty_store
     ''https://example.com/hook'' zero_Webhook = None
   \<and> SendWebhook (\<lambda>u c b. Inr \<lparr>Response_StatusCode = 200\<rparr>) empty_store
     ''https://example.com/hook'' zero_Webhook = None
   \<and> SendWebhook (\<lambda>u c b. Inr \<lparr>Response_StatusCode = 400\<rparr>) empty_store
     ''https://example.com/hook'' zero_Webhook
     = Some (Errorf ''discord webhook returned status %d'' [ArgInt 400])
   \<and> SendWebhook (\<lambda>u c b. Inl (External ''connection refused'')) empty_store
     ''https://example.com/hook'' zero_Webhook
     = Some (Errorf ''failed to post to Discord: %v'' [ArgErr (External ''connection refused'')])"
  using C8_send [of "\<lambda>u c b. Inr \<lparr>Response_StatusCode = 204\<rparr>" empty_store
      "''https://example.com/hook''" zero_Webhook]
    C8_send [of "\<lambda>u c b. Inr \<lparr>Response_StatusCode = 200\<rparr>" empty_store
      "''https://example.com/hook''" zero_Webhook]
    C8_send [of "\<lambda>u c b. Inr \<lparr>Response_StatusCode = 400\<rparr>" empty_store
      "''https://example.com/hook''" zero_Webhook]
    C8_send [of "\<lambda>u c b. Inl (External ''connection refused'')" empty_store
      "''https://example.com/hook''" zero_Webhook]
  by simp

end
